theory Spec2Isabelle
  imports Complex_Main
begin

section \<open>JavaScript values as \<^verbatim>\<open>api/claude.js\<close> sees them\<close>

text \<open>
  The service handles values that come out of \<^verbatim>\<open>JSON.parse\<close>: the request body
  (parsed by body-parser), the provider's response (parsed by axios) and the payload
  extracted from the model's text.  Such a value is null, a boolean, a number, a
  string, an array or a plain object whose own properties are again such values.
  \<^verbatim>\<open>undefined\<close> is added for what a property read gives when the property is absent.

  Numbers: \<^verbatim>\<open>JSON.parse\<close> never gives NaN, but a literal such as \<^verbatim>\<open>1e999\<close>
  gives Infinity.  A finite number is modelled by its exact rational value; the rounding
  of a literal to binary64 and the sign of zero are not modelled (\<^verbatim>\<open>-0\<close> is falsy and
  compares equal to \<^verbatim>\<open>0\<close> in every operation the source applies).

  Strings are sequences of code units, here restricted to the range 0..255.
  Objects are association lists in property order; a property read takes the entry
  of that name.
\<close>

datatype jsnum = Fin rat | PosInfinity | NegInfinity

datatype jsval =
    JUndefined
  | JNull
  | JBool bool
  | JNumber jsnum
  | JString string
  | JArray "jsval list"
  | JObject "(string \<times> jsval) list"

datatype error = TypeError

text \<open>Truthiness (ToBoolean): what \<^verbatim>\<open>||\<close>, \<^verbatim>\<open>!\<close> and \<^verbatim>\<open>?:\<close> test.\<close>

fun truthy :: "jsval \<Rightarrow> bool" where
  "truthy JUndefined = False"
| "truthy JNull = False"
| "truthy (JBool b) = b"
| "truthy (JNumber n) = (n \<noteq> Fin 0)"
| "truthy (JString s) = (s \<noteq> [])"
| "truthy (JArray xs) = True"
| "truthy (JObject kvs) = True"

text \<open>\<^verbatim>\<open>a || b\<close> on values whose evaluation cannot fail.\<close>

definition js_or :: "jsval \<Rightarrow> jsval \<Rightarrow> jsval" where
  "js_or a b = (if truthy a then a else b)"

text \<open>
  \<^verbatim>\<open>v.name\<close> for the property names the source reads (\<^verbatim>\<open>id\<close>, \<^verbatim>\<open>priority\<close>,
  \<^verbatim>\<open>summary\<close>, \<^verbatim>\<open>risk_score\<close>, \<^verbatim>\<open>issues\<close>, \<^verbatim>\<open>text\<close>, \<^verbatim>\<open>rationale\<close>,
  \<^verbatim>\<open>reason\<close>, \<^verbatim>\<open>risk_category\<close>, \<^verbatim>\<open>category\<close>, \<^verbatim>\<open>complaintId\<close>,
  \<^verbatim>\<open>complaints\<close>, \<^verbatim>\<open>content\<close>): none of them is inherited from a prototype, so on
  a boolean, number, string or array the read gives \<^verbatim>\<open>undefined\<close>, on an object it
  gives the own property, and on \<^verbatim>\<open>null\<close> or \<^verbatim>\<open>undefined\<close> it throws a TypeError.
\<close>

fun getProp :: "jsval \<Rightarrow> string \<Rightarrow> error + jsval" where
  "getProp JUndefined k = Inl TypeError"
| "getProp JNull k = Inl TypeError"
| "getProp (JObject kvs) k = Inr (case map_of kvs k of Some v \<Rightarrow> v | None \<Rightarrow> JUndefined)"
| "getProp v k = Inr JUndefined"

text \<open>
  \<^verbatim>\<open>v?.name\<close>: \<^verbatim>\<open>undefined\<close> when \<open>v\<close> is nullish, the property read
  otherwise.
\<close>

definition optProp :: "jsval \<Rightarrow> string \<Rightarrow> jsval" where
  "optProp v k = (case getProp v k of Inl e \<Rightarrow> JUndefined | Inr x \<Rightarrow> x)"

text \<open>
  \<^verbatim>\<open>x.toString()\<close>.  On a string, boolean or number it is the primitive's own method
  (\<^verbatim>\<open>Number.prototype.toString\<close> belongs to the engine and is the parameter
  \<open>numstr\<close>).  On an array it is \<^verbatim>\<open>join(",")\<close>, which prints \<^verbatim>\<open>null\<close> and
  \<^verbatim>\<open>undefined\<close> elements as the empty string and converts the others to strings.
  On an object it is \<^verbatim>\<open>Object.prototype.toString\<close>, unless the object has an own
  property named \<^verbatim>\<open>toString\<close>: a parsed value is never callable, so the call (and
  likewise the conversion inside \<^verbatim>\<open>join\<close>) throws a TypeError.
\<close>

function toString :: "(jsnum \<Rightarrow> string) \<Rightarrow> jsval \<Rightarrow> error + string"
  and join :: "(jsnum \<Rightarrow> string) \<Rightarrow> jsval list \<Rightarrow> error + string"
where
  "toString numstr JUndefined = Inl TypeError"
| "toString numstr JNull = Inl TypeError"
| "toString numstr (JBool b) = Inr (if b then ''true'' else ''false'')"
| "toString numstr (JNumber n) = Inr (numstr n)"
| "toString numstr (JString s) = Inr s"
| "toString numstr (JArray xs) = join numstr xs"
| "toString numstr (JObject kvs) =
     (if ''toString'' \<in> fst ` set kvs then Inl TypeError else Inr ''[object Object]'')"
| "join numstr [] = Inr []"
| "join numstr (x # xs) =
     (case (if x = JUndefined \<or> x = JNull then Inr [] else toString numstr x) of
        Inl e \<Rightarrow> Inl e
      | Inr s \<Rightarrow>
          (if xs = [] then Inr s
           else (case join numstr xs of Inl e \<Rightarrow> Inl e | Inr t \<Rightarrow> Inr (s @ '','' @ t))))"
  by pat_completeness auto
termination
  by (relation "measure (\<lambda>a. case a of Inl (_, v) \<Rightarrow> size v | Inr (_, xs) \<Rightarrow> size_list size xs)")
     auto

text \<open>
  \<^verbatim>\<open>String.prototype.toLowerCase\<close> on code units 0..255: the upper-case letters
  A..Z and the Latin-1 capitals U+00C0..U+00DE (without the multiplication sign U+00D7)
  move up by 32; every other code unit stays.
\<close>

definition toLowerCase_char :: "char \<Rightarrow> char" where
  "toLowerCase_char c =
     (let n = (of_char c :: nat)
      in if (65 \<le> n \<and> n \<le> 90) \<or> (192 \<le> n \<and> n \<le> 222 \<and> n \<noteq> 215)
         then char_of (n + 32) else c)"

definition toLowerCase :: "string \<Rightarrow> string" where
  "toLowerCase s = map toLowerCase_char s"

text \<open>\<^verbatim>\<open>Math.max\<close> and \<^verbatim>\<open>Math.min\<close> on two numbers (no NaN among them).\<close>

fun Math_max :: "jsnum \<Rightarrow> jsnum \<Rightarrow> jsnum" where
  "Math_max PosInfinity y = PosInfinity"
| "Math_max x PosInfinity = PosInfinity"
| "Math_max NegInfinity y = y"
| "Math_max x NegInfinity = x"
| "Math_max (Fin a) (Fin b) = Fin (max a b)"

fun Math_min :: "jsnum \<Rightarrow> jsnum \<Rightarrow> jsnum" where
  "Math_min NegInfinity y = NegInfinity"
| "Math_min x NegInfinity = NegInfinity"
| "Math_min PosInfinity y = y"
| "Math_min x PosInfinity = x"
| "Math_min (Fin a) (Fin b) = Fin (min a b)"

text \<open>The decimal digits of an array index, as the template literal prints it.\<close>

fun decimal :: "nat \<Rightarrow> string" where
  "decimal n =
     (if n < 10 then [char_of (48 + n)]
      else decimal (n div 10) @ [char_of (48 + n mod 10)])"

declare decimal.simps [simp del]

text \<open>
  A stand-in for \<^verbatim>\<open>Number.prototype.toString\<close> in examples.  It is the engine's
  result on the infinities and on the integers of magnitude below \<open>10\<^sup>2\<^sup>1\<close>; it
  drops the fraction of any other number, which the engine prints.  The theorems
  hold for every \<open>numstr\<close>, and no example prints a number.
\<close>

definition numstr_example :: "jsnum \<Rightarrow> string" where
  "numstr_example n =
     (case n of
        PosInfinity \<Rightarrow> ''Infinity''
      | NegInfinity \<Rightarrow> ''-Infinity''
      | Fin q \<Rightarrow> (if q < 0 then ''-'' else []) @ decimal (nat \<lfloor>\<bar>q\<bar>\<rfloor>))"

section \<open>The normalizer\<close>

text \<open>
  One element of \<^verbatim>\<open>results\<close>, and one element of its \<^verbatim>\<open>issues\<close>.  The source
  does not convert \<^verbatim>\<open>id\<close>, \<^verbatim>\<open>summary\<close>, \<^verbatim>\<open>text\<close>, \<^verbatim>\<open>rationale\<close> or
  \<^verbatim>\<open>risk_category\<close> to strings, so these fields hold values.
\<close>

record issue =
  text' :: jsval
  rationale :: jsval
  risk_category :: jsval

record analysis_result =
  id' :: jsval
  priority :: string
  summary :: jsval
  risk_score :: jsval
  issues :: "issue list"
  raw :: jsval

definition allowedPriorities :: "string list" where
  "allowedPriorities = [''urgent'', ''medium'', ''low'']"

text \<open>
  Sequencing of evaluations that may throw: the first exception ends the evaluation.
\<close>

definition bindE :: "error + 'a \<Rightarrow> ('a \<Rightarrow> error + 'b) \<Rightarrow> error + 'b" where
  "bindE m f = (case m of Inl e \<Rightarrow> Inl e | Inr x \<Rightarrow> f x)"

text \<open>\<^verbatim>\<open>xs.map(f)\<close> where \<open>f\<close> may throw.\<close>

fun mapE :: "('a \<Rightarrow> error + 'b) \<Rightarrow> 'a list \<Rightarrow> error + 'b list" where
  "mapE f [] = Inr []"
| "mapE f (x # xs) = bindE (f x) (\<lambda>y. bindE (mapE f xs) (\<lambda>ys. Inr (y # ys)))"

text \<open>
  The arrow function of line 74: every property read is on \<^verbatim>\<open>issue\<close>, so it throws
  exactly when the entry is \<^verbatim>\<open>null\<close>.
\<close>

definition normalizeIssue :: "jsval \<Rightarrow> error + issue" where
  "normalizeIssue i =
     bindE (getProp i ''text'') (\<lambda>t.
     bindE (getProp i ''rationale'') (\<lambda>ra.
     bindE (getProp i ''reason'') (\<lambda>re.
     bindE (getProp i ''risk_category'') (\<lambda>rc.
     bindE (getProp i ''category'') (\<lambda>c.
       Inr \<lparr> text' = js_or t (JString ''''),
             rationale = js_or ra (js_or re (JString '''')),
             risk_category = js_or rc (js_or c JNull) \<rparr>)))))"

text \<open>\<^verbatim>\<open>xs[i]\<close> on an array: \<^verbatim>\<open>undefined\<close> past its end.\<close>

definition index :: "jsval list \<Rightarrow> nat \<Rightarrow> jsval" where
  "index xs i = (if i < length xs then xs ! i else JUndefined)"

text \<open>
  The arrow function of line 66, applied to \<^verbatim>\<open>item\<close> at index \<^verbatim>\<open>idx\<close>.
  \<^verbatim>\<open>originalComplaints[idx]\<close> is \<^verbatim>\<open>undefined\<close> past the end of the batch;
  \<^verbatim>\<open>base\<close> is always truthy, so reads on it cannot throw.
\<close>

definition normalizeItem ::
  "(jsnum \<Rightarrow> string) \<Rightarrow> jsval list \<Rightarrow> jsval \<Rightarrow> nat \<Rightarrow> error + analysis_result" where
  "normalizeItem numstr originalComplaints item idx =
     (let base = js_or (index originalComplaints idx) (JObject []) in
     bindE (getProp item ''priority'') (\<lambda>p.
     bindE (toString numstr (js_or p (JString ''''))) (\<lambda>ps.
     bindE (getProp item ''id'') (\<lambda>i.
     bindE (getProp base ''id'') (\<lambda>bi.
     bindE (getProp base ''complaintId'') (\<lambda>bc.
     bindE (getProp item ''summary'') (\<lambda>s.
     bindE (getProp item ''risk_score'') (\<lambda>rs.
     bindE (getProp item ''issues'') (\<lambda>iss.
     bindE (case iss of JArray xs \<Rightarrow> mapE normalizeIssue (take 10 xs) | _ \<Rightarrow> Inr []) (\<lambda>is.
       Inr \<lparr> id' = js_or i (js_or bi (js_or bc (JString (''row-'' @ decimal idx)))),
             priority = (if toLowerCase ps \<in> set allowedPriorities
                         then toLowerCase ps else ''medium''),
             summary = js_or s (JString ''''),
             risk_score = (case rs of
                             JNumber n \<Rightarrow> JNumber (Math_min (Fin 100) (Math_max (Fin 0) n))
                           | _ \<Rightarrow> JNull),
             issues = is,
             raw = item \<rparr>))))))))))"

text \<open>\<^verbatim>\<open>normalizeResults(raw, originalComplaints)\<close>, lines 63 to 82.\<close>

definition normalizeResults ::
  "(jsnum \<Rightarrow> string) \<Rightarrow> jsval \<Rightarrow> jsval list \<Rightarrow> error + analysis_result list" where
  "normalizeResults numstr rawv originalComplaints =
     (case rawv of
        JArray items \<Rightarrow>
          mapE (\<lambda>(item, idx). normalizeItem numstr originalComplaints item idx)
               (zip items [0..<length items])
      | _ \<Rightarrow> Inr [])"

section \<open>The extractor\<close>

text \<open>
  The regular expression of line 53, \<^verbatim>\<open>/\{[\s\S]*\}|\[[\s\S]*\]/\<close>, is an
  alternation of two sequences; each is a literal character, the greedy star of the
  class \<^verbatim>\<open>[\s\S]\<close> (every code unit), and a literal character.
\<close>

datatype atom = Chr char | AnyStar

type_synonym regex = "atom list list"

definition jsonRegex :: regex where
  "jsonRegex = [[Chr CHR ''{'', AnyStar, Chr CHR ''}''], [Chr CHR ''['', AnyStar, Chr CHR '']'']]"

text \<open>
  Backtracking matching of a sequence at the start of the input, giving the matched
  text.  The star is greedy: it first takes one more code unit, and gives it back
  only when the rest of the sequence cannot match after it.
\<close>

fun match_seq :: "atom list \<Rightarrow> string \<Rightarrow> string option" where
  "match_seq [] s = Some []"
| "match_seq (Chr c # p) [] = None"
| "match_seq (Chr c # p) (x # s) =
     (if x = c then map_option ((#) x) (match_seq p s) else None)"
| "match_seq (AnyStar # p) [] = match_seq p []"
| "match_seq (AnyStar # p) (x # s) =
     (case match_seq (AnyStar # p) s of
        Some m \<Rightarrow> Some (x # m)
      | None \<Rightarrow> match_seq p (x # s))"

text \<open>The alternatives are tried in order at one position.\<close>

fun match_alts :: "regex \<Rightarrow> string \<Rightarrow> string option" where
  "match_alts [] s = None"
| "match_alts (p # ps) s =
     (case match_seq p s of Some m \<Rightarrow> Some m | None \<Rightarrow> match_alts ps s)"

text \<open>
  \<^verbatim>\<open>text.match(re)\<close> for a regular expression without flags: the match at the
  leftmost position where one exists; its element 0 is the matched text.
\<close>

fun String_match :: "regex \<Rightarrow> string \<Rightarrow> string option" where
  "String_match re [] = match_alts re []"
| "String_match re (x # s) =
     (case match_alts re (x # s) of Some m \<Rightarrow> Some m | None \<Rightarrow> String_match re s)"

text \<open>
  \<^verbatim>\<open>extractJSON(text)\<close>, lines 51 to 60.  \<^verbatim>\<open>JSON.parse\<close> belongs to the engine
  and is the parameter \<open>JSON_parse\<close>; \<open>None\<close> is its SyntaxError, which the
  \<^verbatim>\<open>catch\<close> turns into \<^verbatim>\<open>null\<close>.
\<close>

definition extractJSON :: "(string \<Rightarrow> jsval option) \<Rightarrow> jsval \<Rightarrow> jsval" where
  "extractJSON JSON_parse text =
     (case text of
        JString s \<Rightarrow>
          (case String_match jsonRegex s of
             None \<Rightarrow> JNull
           | Some jsonMatch \<Rightarrow>
               (case JSON_parse jsonMatch of Some v \<Rightarrow> v | None \<Rightarrow> JNull))
      | _ \<Rightarrow> JNull)"

text \<open>
  A stand-in for \<^verbatim>\<open>JSON.parse\<close> in examples: it accepts the one document
  \<open>doc\<close>, giving \<open>v\<close>, and rejects every other text.
\<close>

definition parse_only :: "string \<Rightarrow> jsval \<Rightarrow> string \<Rightarrow> jsval option" where
  "parse_only doc v s = (if s = doc then Some v else None)"

subsection \<open>The span as the specification words it\<close>

text \<open>
  The specification's wording of the span: from the earliest \<^verbatim>\<open>{\<close> or \<^verbatim>\<open>[\<close> to
  the last \<^verbatim>\<open>}\<close> or \<^verbatim>\<open>]\<close> of the text.
\<close>

definition upto_last :: "(char \<Rightarrow> bool) \<Rightarrow> string \<Rightarrow> string" where
  "upto_last P s = rev (dropWhile (\<lambda>c. \<not> P c) (rev s))"

definition claimed_span :: "string \<Rightarrow> string option" where
  "claimed_span s =
     (let t = dropWhile (\<lambda>c. c \<noteq> CHR ''{'' \<and> c \<noteq> CHR ''['') s;
          u = upto_last (\<lambda>c. c = CHR ''}'' \<or> c = CHR '']'') (drop 1 t)
      in if t = [] \<or> u = [] then None else Some (hd t # u))"

definition extractJSON_claimed :: "(string \<Rightarrow> jsval option) \<Rightarrow> string \<Rightarrow> jsval" where
  "extractJSON_claimed JSON_parse s =
     (case claimed_span s of
        None \<Rightarrow> JNull
      | Some m \<Rightarrow> (case JSON_parse m of Some v \<Rightarrow> v | None \<Rightarrow> JNull))"

text \<open>
  The span the expression selects: it starts at the earliest position that holds a
  \<^verbatim>\<open>{\<close> with a \<^verbatim>\<open>}\<close> somewhere after it, or a \<^verbatim>\<open>[\<close> with a \<^verbatim>\<open>]\<close>
  somewhere after it, and runs to the last closing bracket of that same kind.
\<close>

fun paired_span :: "string \<Rightarrow> string option" where
  "paired_span [] = None"
| "paired_span (x # s) =
     (if x = CHR ''{'' \<and> CHR ''}'' \<in> set s then Some (x # upto_last (\<lambda>c. c = CHR ''}'') s)
      else if x = CHR ''['' \<and> CHR '']'' \<in> set s then Some (x # upto_last (\<lambda>c. c = CHR '']'') s)
      else paired_span s)"

section \<open>The request handler\<close>

text \<open>
  \<^verbatim>\<open>POST /analyze-complaints\<close>, lines 85 to 151, as a function of the request
  body, the configured key and the outcome of the one call to the provider: the
  promise of \<^verbatim>\<open>axios.post\<close> either rejects with an error that carries a message, or
  resolves to a response whose \<^verbatim>\<open>data\<close> is a parsed value.
\<close>

datatype provider_outcome = Rejected string | Resolved jsval

datatype detail = Message string | MessageOf error

datatype body =
    Error string
  | ErrorDetail string detail
  | ErrorRaw string jsval
  | Analysis nat "analysis_result list"

record response =
  status :: nat
  body :: body

text \<open>\<^verbatim>\<open>v?.[0]\<close>: \<^verbatim>\<open>undefined\<close> when \<open>v\<close> is nullish or has no property 0.\<close>

fun optIndex0 :: "jsval \<Rightarrow> jsval" where
  "optIndex0 (JArray xs) = (case xs of [] \<Rightarrow> JUndefined | x # _ \<Rightarrow> x)"
| "optIndex0 (JString s) = (case s of [] \<Rightarrow> JUndefined | c # _ \<Rightarrow> JString [c])"
| "optIndex0 (JObject kvs) = (case map_of kvs ''0'' of Some v \<Rightarrow> v | None \<Rightarrow> JUndefined)"
| "optIndex0 v = JUndefined"

text \<open>Line 140: \<^verbatim>\<open>response.data?.content?.[0]?.text || ''\<close>.\<close>

definition rawTextOf :: "jsval \<Rightarrow> jsval" where
  "rawTextOf data = js_or (optProp (optIndex0 (optProp data ''content'')) ''text'') (JString '''')"

text \<open>
  \<^verbatim>\<open>rawText.slice(0, 1000)\<close>: strings and arrays have the method; on any other
  truthy value the call throws a TypeError.
\<close>

fun slice_1000 :: "jsval \<Rightarrow> error + jsval" where
  "slice_1000 (JString s) = Inr (JString (take 1000 s))"
| "slice_1000 (JArray xs) = Inr (JArray (take 1000 xs))"
| "slice_1000 v = Inl TypeError"

text \<open>The body of the \<^verbatim>\<open>try\<close> after the provider has answered, lines 140 to 146.\<close>

definition respond ::
  "(jsnum \<Rightarrow> string) \<Rightarrow> (string \<Rightarrow> jsval option) \<Rightarrow> jsval list \<Rightarrow> jsval \<Rightarrow> error + response" where
  "respond numstr JSON_parse limitedComplaints data =
     (let rawText = rawTextOf data;
          parsed = extractJSON JSON_parse rawText
      in bindE (normalizeResults numstr parsed limitedComplaints) (\<lambda>normalized.
         if length normalized = 0
         then bindE (slice_1000 rawText) (\<lambda>excerpt.
                Inr \<lparr> status = 502, body = ErrorRaw ''Unable to parse AI response'' excerpt \<rparr>)
         else Inr \<lparr> status = 200, body = Analysis (length normalized) normalized \<rparr>))"

text \<open>
  The handler.  An exception inside the \<^verbatim>\<open>try\<close> is answered by the \<^verbatim>\<open>catch\<close>
  with status 500; the destructuring of \<^verbatim>\<open>req.body\<close> is outside it.
\<close>

definition analyze_complaints ::
  "(jsnum \<Rightarrow> string) \<Rightarrow> (string \<Rightarrow> jsval option) \<Rightarrow> string option \<Rightarrow> jsval
     \<Rightarrow> provider_outcome \<Rightarrow> error + response" where
  "analyze_complaints numstr JSON_parse CLAUDE_API_KEY req_body outcome =
     bindE (getProp req_body ''complaints'') (\<lambda>complaints.
       case complaints of
         JArray cs \<Rightarrow>
           if length cs = 0
           then Inr \<lparr> status = 400, body = Error ''Complaints (non-empty array) required.'' \<rparr>
           else if CLAUDE_API_KEY = None \<or> CLAUDE_API_KEY = Some ''''
           then Inr \<lparr> status = 500, body = Error ''CLAUDE_API_KEY not configured on server.'' \<rparr>
           else
             (case outcome of
                Rejected msg \<Rightarrow>
                  Inr \<lparr> status = 500, body = ErrorDetail ''Analysis failed'' (Message msg) \<rparr>
              | Resolved data \<Rightarrow>
                  (case respond numstr JSON_parse (take 50 cs) data of
                     Inl e \<Rightarrow>
                       Inr \<lparr> status = 500, body = ErrorDetail ''Analysis failed'' (MessageOf e) \<rparr>
                   | Inr r \<Rightarrow> Inr r))
       | _ \<Rightarrow> Inr \<lparr> status = 400, body = Error ''Complaints (non-empty array) required.'' \<rparr>)"

section \<open>Predicates used in the statements\<close>

text \<open>A value that is a string of at least one code unit.\<close>

fun nonempty_string :: "jsval \<Rightarrow> bool" where
  "nonempty_string (JString s) = (s \<noteq> [])"
| "nonempty_string v = False"

section \<open>Properties of the normalizer\<close>

subsection \<open>Auxiliary facts\<close>

lemma bindE_Inr_iff: "bindE m f = Inr y \<longleftrightarrow> (\<exists>x. m = Inr x \<and> f x = Inr y)"
  by (cases m) (simp_all add: bindE_def)

lemma getProp_optProp: "getProp v k = Inr x \<Longrightarrow> optProp v k = x"
  by (simp add: optProp_def)

lemma getProp_Inr_not_nullish: "getProp v k = Inr x \<Longrightarrow> v \<noteq> JNull \<and> v \<noteq> JUndefined"
  by (cases v) auto

lemma mapE_Inr_length: "mapE f xs = Inr ys \<Longrightarrow> length ys = length xs"
  by (induction xs arbitrary: ys) (auto simp: bindE_Inr_iff)

lemma mapE_Inr_nth:
  "mapE f xs = Inr ys \<Longrightarrow> i < length xs \<Longrightarrow> f (xs ! i) = Inr (ys ! i)"
proof (induction xs arbitrary: ys i)
  case Nil
  then show ?case by simp
next
  case (Cons x xs)
  from Cons.prems(1) obtain y zs where
    fx: "f x = Inr y" and rest: "mapE f xs = Inr zs" and ys: "ys = y # zs"
    by (auto simp: bindE_Inr_iff)
  show ?case
  proof (cases i)
    case 0
    with fx ys show ?thesis by simp
  next
    case (Suc j)
    with Cons.prems(2) have "j < length xs" by simp
    from Cons.IH [OF rest this] Suc ys show ?thesis by simp
  qed
qed

lemma normalizeItem_Inr:
  assumes "normalizeItem numstr oc item idx = Inr r"
  shows "\<exists>ps is.
    toString numstr (js_or (optProp item ''priority'') (JString [])) = Inr ps \<and>
    (case optProp item ''issues'' of
       JArray xs \<Rightarrow> mapE normalizeIssue (take 10 xs) | _ \<Rightarrow> Inr []) = Inr is \<and>
    item \<noteq> JNull \<and> item \<noteq> JUndefined \<and>
    r = \<lparr> id' = js_or (optProp item ''id'')
                  (js_or (optProp (js_or (index oc idx) (JObject [])) ''id'')
                    (js_or (optProp (js_or (index oc idx) (JObject [])) ''complaintId'')
                      (JString (''row-'' @ decimal idx)))),
           priority = (if toLowerCase ps \<in> set allowedPriorities
                       then toLowerCase ps else ''medium''),
           summary = js_or (optProp item ''summary'') (JString []),
           risk_score = (case optProp item ''risk_score'' of
                           JNumber n \<Rightarrow> JNumber (Math_min (Fin 100) (Math_max (Fin 0) n))
                         | _ \<Rightarrow> JNull),
           issues = is,
           raw = item \<rparr>"
proof -
  from assms obtain p ps i bi bc s rs iss "is" where
    p: "getProp item ''priority'' = Inr p" and
    ps: "toString numstr (js_or p (JString [])) = Inr ps" and
    i: "getProp item ''id'' = Inr i" and
    bi: "getProp (js_or (index oc idx) (JObject [])) ''id'' = Inr bi" and
    bc: "getProp (js_or (index oc idx) (JObject [])) ''complaintId'' = Inr bc" and
    s: "getProp item ''summary'' = Inr s" and
    rs: "getProp item ''risk_score'' = Inr rs" and
    iss: "getProp item ''issues'' = Inr iss" and
    "is": "(case iss of JArray xs \<Rightarrow> mapE normalizeIssue (take 10 xs) | _ \<Rightarrow> Inr []) = Inr is" and
    r: "r = \<lparr> id' = js_or i (js_or bi (js_or bc (JString (''row-'' @ decimal idx)))),
           priority = (if toLowerCase ps \<in> set allowedPriorities
                       then toLowerCase ps else ''medium''),
           summary = js_or s (JString []),
           risk_score = (case rs of
                           JNumber n \<Rightarrow> JNumber (Math_min (Fin 100) (Math_max (Fin 0) n))
                         | _ \<Rightarrow> JNull),
           issues = is,
           raw = item \<rparr>"
    unfolding normalizeItem_def Let_def bindE_Inr_iff by force
  note o = getProp_optProp [OF p] getProp_optProp [OF i] getProp_optProp [OF bi]
    getProp_optProp [OF bc] getProp_optProp [OF s] getProp_optProp [OF rs]
    getProp_optProp [OF iss]
  from getProp_Inr_not_nullish [OF p] have "item \<noteq> JNull" "item \<noteq> JUndefined" by simp_all
  with ps "is" r show ?thesis
    unfolding o [symmetric] by blast
qed


lemma normalizeResults_Inr:
  assumes "normalizeResults numstr (JArray items) oc = Inr rs"
  shows "length rs = length items"
    and "i < length items \<Longrightarrow> normalizeItem numstr oc (items ! i) i = Inr (rs ! i)"
proof -
  let ?f = "\<lambda>(item, idx). normalizeItem numstr oc item idx"
  from assms have m: "mapE ?f (zip items [0..<length items]) = Inr rs"
    by (simp add: normalizeResults_def)
  from mapE_Inr_length [OF m] show "length rs = length items" by simp
  assume i: "i < length items"
  then have "i < length (zip items [0..<length items])" by simp
  from mapE_Inr_nth [OF m this] i
  show "normalizeItem numstr oc (items ! i) i = Inr (rs ! i)" by simp
qed

subsection \<open>Totality\<close>

text \<open>
  C1.  The claim: for a parsed array, \<^verbatim>\<open>normalizeResults\<close> never raises, however
  malformed the elements are, a \<^verbatim>\<open>null\<close> element included.  The source reads
  \<^verbatim>\<open>item.priority\<close> before anything else, so on the parsed array \<^verbatim>\<open>[null]\<close> the
  call throws a TypeError, for every input batch.
\<close>

theorem normalizeResults_null_element_throws:
  "normalizeResults numstr (JArray [JNull]) originalComplaints = Inl TypeError"
  by (simp add: normalizeResults_def normalizeItem_def bindE_def)

subsection \<open>Length and position\<close>

text \<open>
  C2, as stated: the number of results equals the length of the input batch.  A
  parsed array of two elements against a batch of one complaint gives two results.
\<close>

theorem results_length_counterexample:
  "normalizeResults numstr_example (JArray [JObject [], JObject []])
     [JObject [(''id'', JString ''a'')]] =
   Inr [\<lparr> id' = JString ''a'', priority = ''medium'', summary = JString [],
           risk_score = JNull, issues = [], raw = JObject [] \<rparr>,
        \<lparr> id' = JString ''row-1'', priority = ''medium'', summary = JString [],
           risk_score = JNull, issues = [], raw = JObject [] \<rparr>]"
  by code_simp

text \<open>
  C2, amended: whenever the parsed value is an array and normalization returns, the
  number of results equals the length of the parsed array, and the \<^verbatim>\<open>raw\<close> field
  of the result at each index is the parsed array's element at that index.
\<close>

theorem results_follow_parsed_array:
  assumes "normalizeResults numstr (JArray items) originalComplaints = Inr rs"
  shows "length rs = length items \<and> (\<forall>i<length items. raw (rs ! i) = items ! i)"
proof (intro conjI allI impI)
  show "length rs = length items" by (rule normalizeResults_Inr(1) [OF assms])
next
  fix i assume "i < length items"
  from normalizeResults_Inr(2) [OF assms this]
  have "normalizeItem numstr originalComplaints (items ! i) i = Inr (rs ! i)" .
  from normalizeItem_Inr [OF this] show "raw (rs ! i) = items ! i" by auto
qed

text \<open>The amended C2 at a parsed array of two elements and a batch of one.\<close>

theorem results_follow_parsed_array_witness:
  "normalizeResults numstr_example
     (JArray [JObject [(''id'', JString ''x'')], JObject [(''id'', JString ''y'')]])
     [JObject [(''id'', JString ''a'')]] =
   Inr [\<lparr> id' = JString ''x'', priority = ''medium'', summary = JString [],
           risk_score = JNull, issues = [], raw = JObject [(''id'', JString ''x'')] \<rparr>,
        \<lparr> id' = JString ''y'', priority = ''medium'', summary = JString [],
           risk_score = JNull, issues = [], raw = JObject [(''id'', JString ''y'')] \<rparr>]
   \<and> raw ([\<lparr> id' = JString ''x'', priority = ''medium'', summary = JString [],
           risk_score = JNull, issues = [], raw = JObject [(''id'', JString ''x'')] \<rparr>,
        \<lparr> id' = JString ''y'', priority = ''medium'', summary = JString [],
           risk_score = JNull, issues = [], raw = JObject [(''id'', JString ''y'')] \<rparr>] ! 1)
      = JObject [(''id'', JString ''y'')]"
proof -
  have h: "normalizeResults numstr_example
     (JArray [JObject [(''id'', JString ''x'')], JObject [(''id'', JString ''y'')]])
     [JObject [(''id'', JString ''a'')]] =
   Inr [\<lparr> id' = JString ''x'', priority = ''medium'', summary = JString [],
           risk_score = JNull, issues = [], raw = JObject [(''id'', JString ''x'')] \<rparr>,
        \<lparr> id' = JString ''y'', priority = ''medium'', summary = JString [],
           risk_score = JNull, issues = [], raw = JObject [(''id'', JString ''y'')] \<rparr>]"
    by code_simp
  from results_follow_parsed_array [OF h] h show ?thesis by simp
qed


subsection \<open>Priority\<close>

text \<open>
  C3, as stated: a priority outside the set, wrong case included, normalizes to
  \<^verbatim>\<open>medium\<close>.  The source lower-cases before it validates, so the wrong-case
  spelling \<^verbatim>\<open>"URGENT"\<close>, which is not one of the three allowed strings,
  normalizes to \<^verbatim>\<open>urgent\<close>.
\<close>

theorem priority_wrong_case_counterexample:
  "JString ''URGENT'' \<notin> JString ` set allowedPriorities \<and>
   normalizeResults numstr_example (JArray [JObject [(''priority'', JString ''URGENT'')]]) [] =
   Inr [\<lparr> id' = JString ''row-0'', priority = ''urgent'', summary = JString [],
           risk_score = JNull, issues = [],
           raw = JObject [(''priority'', JString ''URGENT'')] \<rparr>]"
  by code_simp

text \<open>The allowed set, and string forms that are never in it.\<close>

lemma allowed_set: "set allowedPriorities = {''urgent'', ''medium'', ''low''}"
  by (auto simp: allowedPriorities_def)

lemma toLowerCase_true_false:
  "toLowerCase ''true'' \<notin> set allowedPriorities"
  "toLowerCase ''false'' \<notin> set allowedPriorities"
  "toLowerCase ''[object Object]'' \<notin> set allowedPriorities"
  "toLowerCase [] \<notin> set allowedPriorities"
  by code_simp+

text \<open>
  C3, amended: the normalized priority is one of \<^verbatim>\<open>urgent\<close>, \<^verbatim>\<open>medium\<close>,
  \<^verbatim>\<open>low\<close>.  It is the lower-cased string form of the element's priority when that
  is one of the three, and \<^verbatim>\<open>medium\<close> otherwise.  So a falsy priority (absent,
  null, empty string, false, zero), a boolean, a plain object, and a string whose
  lower-cased form is outside the set all normalize to \<^verbatim>\<open>medium\<close>.
\<close>

theorem priority_domain_closure:
  assumes "normalizeResults numstr (JArray items) originalComplaints = Inr rs"
    and "i < length items"
  shows "priority (rs ! i) \<in> {''urgent'', ''medium'', ''low''} \<and>
    (\<exists>ps. toString numstr (js_or (optProp (items ! i) ''priority'') (JString [])) = Inr ps \<and>
          priority (rs ! i) = (if toLowerCase ps \<in> {''urgent'', ''medium'', ''low''}
                               then toLowerCase ps else ''medium'')) \<and>
    (\<not> truthy (optProp (items ! i) ''priority'') \<longrightarrow> priority (rs ! i) = ''medium'') \<and>
    (\<forall>s. optProp (items ! i) ''priority'' = JString s \<and>
           toLowerCase s \<notin> {''urgent'', ''medium'', ''low''} \<longrightarrow>
         priority (rs ! i) = ''medium'') \<and>
    (\<forall>b. optProp (items ! i) ''priority'' = JBool b \<longrightarrow> priority (rs ! i) = ''medium'') \<and>
    (\<forall>kvs. optProp (items ! i) ''priority'' = JObject kvs \<longrightarrow> priority (rs ! i) = ''medium'')"
proof -
  from normalizeResults_Inr(2) [OF assms(1,2)]
  have elem: "normalizeItem numstr originalComplaints (items ! i) i = Inr (rs ! i)" .
  from normalizeItem_Inr [OF elem] obtain ps where
    ps: "toString numstr (js_or (optProp (items ! i) ''priority'') (JString [])) = Inr ps" and
    pr: "priority (rs ! i) = (if toLowerCase ps \<in> set allowedPriorities
                       then toLowerCase ps else ''medium'')"
    by auto
  have dom: "priority (rs ! i) \<in> {''urgent'', ''medium'', ''low''}"
    using pr by (auto simp: allowed_set split: if_splits)
  have ex: "\<exists>ps. toString numstr (js_or (optProp (items ! i) ''priority'') (JString [])) = Inr ps \<and>
          priority (rs ! i) = (if toLowerCase ps \<in> {''urgent'', ''medium'', ''low''}
                        then toLowerCase ps else ''medium'')"
    using ps pr unfolding allowed_set by blast
  have falsy: "priority (rs ! i) = ''medium''" if "\<not> truthy (optProp (items ! i) ''priority'')"
  proof -
    from that ps have "ps = []" by (simp add: js_or_def)
    with pr toLowerCase_true_false(4) show ?thesis by simp
  qed
  have str: "priority (rs ! i) = ''medium''"
    if "optProp (items ! i) ''priority'' = JString s \<and> toLowerCase s \<notin> {''urgent'', ''medium'', ''low''}"
    for s
  proof (cases "s = []")
    case True
    with that have "\<not> truthy (optProp (items ! i) ''priority'')" by simp
    then show ?thesis by (rule falsy)
  next
    case False
    with that ps have "ps = s" by (simp add: js_or_def)
    with pr that show ?thesis by (simp add: allowed_set)
  qed
  have bool: "priority (rs ! i) = ''medium''" if "optProp (items ! i) ''priority'' = JBool b" for b
  proof -
    from that ps have "ps = ''true'' \<or> ps = []" by (cases b) (auto simp: js_or_def)
    with pr toLowerCase_true_false show ?thesis by auto
  qed
  have obj: "priority (rs ! i) = ''medium''" if "optProp (items ! i) ''priority'' = JObject kvs" for kvs
  proof -
    from that ps have "ps = ''[object Object]''" by (auto simp: js_or_def split: if_splits)
    with pr toLowerCase_true_false show ?thesis by auto
  qed
  from dom ex falsy str bool obj show ?thesis by blast
qed

text \<open>The amended C3 at a parsed array whose element has the priority \<^verbatim>\<open>"HIGH"\<close>.\<close>

theorem priority_domain_closure_witness:
  "normalizeResults numstr_example (JArray [JObject [(''priority'', JString ''HIGH'')]]) [] =
     Inr [\<lparr> id' = JString ''row-0'', priority = ''medium'', summary = JString [],
             risk_score = JNull, issues = [],
             raw = JObject [(''priority'', JString ''HIGH'')] \<rparr>] \<and>
   (0::nat) < length [JObject [(''priority'', JString ''HIGH'')]] \<and>
   optProp ([JObject [(''priority'', JString ''HIGH'')]] ! 0) ''priority'' = JString ''HIGH'' \<and>
   toLowerCase ''HIGH'' \<notin> {''urgent'', ''medium'', ''low''} \<and>
   priority ([\<lparr> id' = JString ''row-0'', priority = ''medium'', summary = JString [],
             risk_score = JNull, issues = [],
             raw = JObject [(''priority'', JString ''HIGH'')] \<rparr>] ! 0) = ''medium''"
proof -
  have h: "normalizeResults numstr_example (JArray [JObject [(''priority'', JString ''HIGH'')]]) [] =
     Inr [\<lparr> id' = JString ''row-0'', priority = ''medium'', summary = JString [],
             risk_score = JNull, issues = [],
             raw = JObject [(''priority'', JString ''HIGH'')] \<rparr>]"
    by code_simp
  have i: "(0::nat) < length [JObject [(''priority'', JString ''HIGH'')]]"
    by simp
  have p: "optProp ([JObject [(''priority'', JString ''HIGH'')]] ! 0) ''priority'' = JString ''HIGH''"
    by code_simp
  have l: "toLowerCase ''HIGH'' \<notin> {''urgent'', ''medium'', ''low''}"
    by code_simp
  from priority_domain_closure [OF h i] p l
  have "priority ([\<lparr> id' = JString ''row-0'', priority = ''medium'', summary = JString [],
             risk_score = JNull, issues = [],
             raw = JObject [(''priority'', JString ''HIGH'')] \<rparr>] ! 0) = ''medium''"
    by blast
  with h i p l show ?thesis by blast
qed

subsection \<open>Summary\<close>

text \<open>
  C4, as stated: the normalized summary is always a string, the empty string when
  the element's summary is not a string.  The source writes
  \<^verbatim>\<open>item.summary || ''\<close>, so the number 42 as summary stays the number 42.
\<close>

theorem summary_non_string_counterexample:
  "normalizeResults numstr_example (JArray [JObject [(''summary'', JNumber (Fin 42))]]) [] =
   Inr [\<lparr> id' = JString ''row-0'', priority = ''medium'', summary = JNumber (Fin 42),
           risk_score = JNull, issues = [],
           raw = JObject [(''summary'', JNumber (Fin 42))] \<rparr>]"
  by code_simp

text \<open>
  C4, amended: the normalized summary is the element's summary when that is truthy,
  and the empty string otherwise.  It is never null or undefined, and a summary
  that is a string is copied verbatim.
\<close>

theorem summary_truthy_or_empty:
  assumes "normalizeResults numstr (JArray items) originalComplaints = Inr rs"
    and "i < length items"
  shows "summary (rs ! i) = (if truthy (optProp (items ! i) ''summary'')
                             then optProp (items ! i) ''summary'' else JString []) \<and>
         summary (rs ! i) \<noteq> JNull \<and> summary (rs ! i) \<noteq> JUndefined \<and>
         (\<forall>s. optProp (items ! i) ''summary'' = JString s \<longrightarrow> summary (rs ! i) = JString s)"
proof -
  from normalizeResults_Inr(2) [OF assms(1,2)]
  have elem: "normalizeItem numstr originalComplaints (items ! i) i = Inr (rs ! i)" .
  from normalizeItem_Inr [OF elem]
  have s: "summary (rs ! i) = js_or (optProp (items ! i) ''summary'') (JString [])" by auto
  then show ?thesis by (auto simp: js_or_def)
qed

text \<open>The amended C4 at a parsed array whose element has a string summary.\<close>

theorem summary_truthy_or_empty_witness:
  "normalizeResults numstr_example
     (JArray [JObject [(''summary'', JString ''Late fee dispute'')]]) [] =
     Inr [\<lparr> id' = JString ''row-0'', priority = ''medium'',
             summary = JString ''Late fee dispute'', risk_score = JNull, issues = [],
             raw = JObject [(''summary'', JString ''Late fee dispute'')] \<rparr>] \<and>
   (0::nat) < length [JObject [(''summary'', JString ''Late fee dispute'')]] \<and>
   optProp ([JObject [(''summary'', JString ''Late fee dispute'')]] ! 0) ''summary'' =
     JString ''Late fee dispute'' \<and>
   summary ([\<lparr> id' = JString ''row-0'', priority = ''medium'',
             summary = JString ''Late fee dispute'', risk_score = JNull, issues = [],
             raw = JObject [(''summary'', JString ''Late fee dispute'')] \<rparr>] ! 0) =
     JString ''Late fee dispute''"
proof -
  have h: "normalizeResults numstr_example
     (JArray [JObject [(''summary'', JString ''Late fee dispute'')]]) [] =
     Inr [\<lparr> id' = JString ''row-0'', priority = ''medium'',
             summary = JString ''Late fee dispute'', risk_score = JNull, issues = [],
             raw = JObject [(''summary'', JString ''Late fee dispute'')] \<rparr>]"
    by code_simp
  have i: "(0::nat) < length [JObject [(''summary'', JString ''Late fee dispute'')]]"
    by simp
  have p: "optProp ([JObject [(''summary'', JString ''Late fee dispute'')]] ! 0) ''summary'' =
     JString ''Late fee dispute''"
    by code_simp
  from summary_truthy_or_empty [OF h i] p
  have "summary ([\<lparr> id' = JString ''row-0'', priority = ''medium'',
             summary = JString ''Late fee dispute'', risk_score = JNull, issues = [],
             raw = JObject [(''summary'', JString ''Late fee dispute'')] \<rparr>] ! 0) =
     JString ''Late fee dispute''"
    by blast
  with h i p show ?thesis by blast
qed

subsection \<open>Risk score\<close>

text \<open>The range of the clamp of line 73.\<close>

lemma clamp_cases:
  "\<exists>q. Math_min (Fin 100) (Math_max (Fin 0) n) = Fin q \<and> 0 \<le> q \<and> q \<le> 100"
  by (cases n) auto

text \<open>
  C5.  The normalized \<^verbatim>\<open>risk_score\<close> is \<^verbatim>\<open>null\<close> or a number between 0 and 100
  inclusive.  A numeric score is clamped into the range, so -5 normalizes to 0 and
  150 to 100 (and the infinities to the nearer bound); a score that is not a number
  normalizes to \<^verbatim>\<open>null\<close>.
\<close>

theorem risk_score_clamped:
  assumes "normalizeResults numstr (JArray items) originalComplaints = Inr rs"
    and "i < length items"
  shows "(risk_score (rs ! i) = JNull \<or>
      (\<exists>q. risk_score (rs ! i) = JNumber (Fin q) \<and> 0 \<le> q \<and> q \<le> 100)) \<and>
    (\<forall>q. optProp (items ! i) ''risk_score'' = JNumber (Fin q) \<longrightarrow>
           risk_score (rs ! i) = JNumber (Fin (min 100 (max 0 q)))) \<and>
    (optProp (items ! i) ''risk_score'' = JNumber PosInfinity \<longrightarrow>
       risk_score (rs ! i) = JNumber (Fin 100)) \<and>
    (optProp (items ! i) ''risk_score'' = JNumber NegInfinity \<longrightarrow>
       risk_score (rs ! i) = JNumber (Fin 0)) \<and>
    (optProp (items ! i) ''risk_score'' = JNumber (Fin (- 5)) \<longrightarrow>
       risk_score (rs ! i) = JNumber (Fin 0)) \<and>
    (optProp (items ! i) ''risk_score'' = JNumber (Fin 150) \<longrightarrow>
       risk_score (rs ! i) = JNumber (Fin 100)) \<and>
    ((\<forall>n. optProp (items ! i) ''risk_score'' \<noteq> JNumber n) \<longrightarrow> risk_score (rs ! i) = JNull)"
proof -
  from normalizeResults_Inr(2) [OF assms(1,2)]
  have elem: "normalizeItem numstr originalComplaints (items ! i) i = Inr (rs ! i)" .
  from normalizeItem_Inr [OF elem]
  have rs: "risk_score (rs ! i) = (case optProp (items ! i) ''risk_score'' of
              JNumber n \<Rightarrow> JNumber (Math_min (Fin 100) (Math_max (Fin 0) n))
            | _ \<Rightarrow> JNull)"
    by auto
  have range: "risk_score (rs ! i) = JNull \<or>
      (\<exists>q. risk_score (rs ! i) = JNumber (Fin q) \<and> 0 \<le> q \<and> q \<le> 100)"
  proof (cases "optProp (items ! i) ''risk_score''")
    case (JNumber n)
    with rs clamp_cases [of n] show ?thesis by auto
  qed (simp_all add: rs)
  have fin: "risk_score (rs ! i) = JNumber (Fin (min 100 (max 0 q)))"
    if "optProp (items ! i) ''risk_score'' = JNumber (Fin q)" for q
    using rs that by simp
  have absent: "risk_score (rs ! i) = JNull" if "\<forall>n. optProp (items ! i) ''risk_score'' \<noteq> JNumber n"
    using rs that by (cases "optProp (items ! i) ''risk_score''") simp_all
  have inf: "optProp (items ! i) ''risk_score'' = JNumber PosInfinity \<longrightarrow> risk_score (rs ! i) = JNumber (Fin 100)"
    "optProp (items ! i) ''risk_score'' = JNumber NegInfinity \<longrightarrow> risk_score (rs ! i) = JNumber (Fin 0)"
    using rs by simp_all
  have ex: "optProp (items ! i) ''risk_score'' = JNumber (Fin (- 5)) \<longrightarrow> risk_score (rs ! i) = JNumber (Fin 0)"
    "optProp (items ! i) ''risk_score'' = JNumber (Fin 150) \<longrightarrow> risk_score (rs ! i) = JNumber (Fin 100)"
    using rs by simp_all
  from range fin absent inf ex show ?thesis by blast
qed

text \<open>C5 at a parsed array with the scores -5 and 150, read at the second element.\<close>

theorem risk_score_clamped_witness:
  "normalizeResults numstr_example
     (JArray [JObject [(''risk_score'', JNumber (Fin (- 5)))],
              JObject [(''risk_score'', JNumber (Fin 150))]]) [] =
     Inr [\<lparr> id' = JString ''row-0'', priority = ''medium'', summary = JString [],
             risk_score = JNumber (Fin 0), issues = [],
             raw = JObject [(''risk_score'', JNumber (Fin (- 5)))] \<rparr>,
          \<lparr> id' = JString ''row-1'', priority = ''medium'', summary = JString [],
             risk_score = JNumber (Fin 100), issues = [],
             raw = JObject [(''risk_score'', JNumber (Fin 150))] \<rparr>] \<and>
   (1::nat) < length [JObject [(''risk_score'', JNumber (Fin (- 5)))],
                      JObject [(''risk_score'', JNumber (Fin 150))]] \<and>
   optProp ([JObject [(''risk_score'', JNumber (Fin (- 5)))],
             JObject [(''risk_score'', JNumber (Fin 150))]] ! 1) ''risk_score'' =
     JNumber (Fin 150) \<and>
   risk_score ([\<lparr> id' = JString ''row-0'', priority = ''medium'', summary = JString [],
             risk_score = JNumber (Fin 0), issues = [],
             raw = JObject [(''risk_score'', JNumber (Fin (- 5)))] \<rparr>,
          \<lparr> id' = JString ''row-1'', priority = ''medium'', summary = JString [],
             risk_score = JNumber (Fin 100), issues = [],
             raw = JObject [(''risk_score'', JNumber (Fin 150))] \<rparr>] ! 1) = JNumber (Fin 100)"
proof -
  have h: "normalizeResults numstr_example
     (JArray [JObject [(''risk_score'', JNumber (Fin (- 5)))],
              JObject [(''risk_score'', JNumber (Fin 150))]]) [] =
     Inr [\<lparr> id' = JString ''row-0'', priority = ''medium'', summary = JString [],
             risk_score = JNumber (Fin 0), issues = [],
             raw = JObject [(''risk_score'', JNumber (Fin (- 5)))] \<rparr>,
          \<lparr> id' = JString ''row-1'', priority = ''medium'', summary = JString [],
             risk_score = JNumber (Fin 100), issues = [],
             raw = JObject [(''risk_score'', JNumber (Fin 150))] \<rparr>]"
    by code_simp
  have i: "(1::nat) < length [JObject [(''risk_score'', JNumber (Fin (- 5)))],
                      JObject [(''risk_score'', JNumber (Fin 150))]]"
    by simp
  have p: "optProp ([JObject [(''risk_score'', JNumber (Fin (- 5)))],
             JObject [(''risk_score'', JNumber (Fin 150))]] ! 1) ''risk_score'' =
     JNumber (Fin 150)"
    by code_simp
  from risk_score_clamped [OF h i] p
  have "risk_score ([\<lparr> id' = JString ''row-0'', priority = ''medium'', summary = JString [],
             risk_score = JNumber (Fin 0), issues = [],
             raw = JObject [(''risk_score'', JNumber (Fin (- 5)))] \<rparr>,
          \<lparr> id' = JString ''row-1'', priority = ''medium'', summary = JString [],
             risk_score = JNumber (Fin 100), issues = [],
             raw = JObject [(''risk_score'', JNumber (Fin 150))] \<rparr>] ! 1) = JNumber (Fin 100)"
    by blast
  with h i p show ?thesis by blast
qed


subsection \<open>Issues\<close>

text \<open>What the projection of one issue entry returns, when it returns.\<close>

lemma normalizeIssue_Inr:
  assumes "normalizeIssue i = Inr r"
  shows "r = \<lparr> text' = js_or (optProp i ''text'') (JString []),
               rationale = js_or (optProp i ''rationale'')
                             (js_or (optProp i ''reason'') (JString [])),
               risk_category = js_or (optProp i ''risk_category'')
                                 (js_or (optProp i ''category'') JNull) \<rparr>"
proof -
  from assms obtain t ra re rc c where
    g: "getProp i ''text'' = Inr t" "getProp i ''rationale'' = Inr ra"
       "getProp i ''reason'' = Inr re" "getProp i ''risk_category'' = Inr rc"
       "getProp i ''category'' = Inr c" and
    r: "r = \<lparr> text' = js_or t (JString []), rationale = js_or ra (js_or re (JString [])),
               risk_category = js_or rc (js_or c JNull) \<rparr>"
    unfolding normalizeIssue_def bindE_Inr_iff by force
  from r show ?thesis unfolding g [THEN getProp_optProp] .
qed

text \<open>
  C6.  If the element's \<^verbatim>\<open>issues\<close> is not an array, the normalized issues are
  empty.  Otherwise they are the projections of the first ten entries, in order:
  their number is the smaller of 10 and the number of entries, and the one at
  position \<open>j\<close> comes from the entry at position \<open>j\<close>.  An element with 15
  entries normalizes to exactly 10.
\<close>

theorem issues_capped:
  assumes "normalizeResults numstr (JArray items) originalComplaints = Inr rs"
    and "i < length items"
  shows "((\<forall>xs. optProp (items ! i) ''issues'' \<noteq> JArray xs) \<longrightarrow> issues (rs ! i) = []) \<and>
    (\<forall>xs. optProp (items ! i) ''issues'' = JArray xs \<longrightarrow>
       length (issues (rs ! i)) = min 10 (length xs) \<and>
       (\<forall>j<length (issues (rs ! i)). normalizeIssue (xs ! j) = Inr (issues (rs ! i) ! j)) \<and>
       (length xs = 15 \<longrightarrow> length (issues (rs ! i)) = 10))"
proof -
  from normalizeResults_Inr(2) [OF assms(1,2)]
  have elem: "normalizeItem numstr originalComplaints (items ! i) i = Inr (rs ! i)" .
  from normalizeItem_Inr [OF elem]
  have c: "(case optProp (items ! i) ''issues'' of
              JArray xs \<Rightarrow> mapE normalizeIssue (take 10 xs) | _ \<Rightarrow> Inr []) = Inr (issues (rs ! i))"
    by auto
  have none: "issues (rs ! i) = []" if "\<forall>xs. optProp (items ! i) ''issues'' \<noteq> JArray xs"
    using c that by (cases "optProp (items ! i) ''issues''") simp_all
  have some: "length (issues (rs ! i)) = min 10 (length xs) \<and>
       (\<forall>j<length (issues (rs ! i)). normalizeIssue (xs ! j) = Inr (issues (rs ! i) ! j)) \<and>
       (length xs = 15 \<longrightarrow> length (issues (rs ! i)) = 10)"
    if a: "optProp (items ! i) ''issues'' = JArray xs" for xs
  proof -
    from c a have m: "mapE normalizeIssue (take 10 xs) = Inr (issues (rs ! i))" by simp
    from mapE_Inr_length [OF m] have len: "length (issues (rs ! i)) = min 10 (length xs)"
      by (simp add: min.commute)
    have nth: "normalizeIssue (xs ! j) = Inr (issues (rs ! i) ! j)" if "j < length (issues (rs ! i))" for j
    proof -
      from that len have j: "j < length (take 10 xs)" by simp
      from mapE_Inr_nth [OF m j] j show ?thesis by simp
    qed
    from len nth show ?thesis by simp
  qed
  from none some show ?thesis by blast
qed

text \<open>C6 at a parsed array whose element has 15 issue entries.\<close>

theorem issues_capped_witness:
  "normalizeResults numstr_example
     (JArray [JObject [(''issues'',
        JArray (replicate 15 (JObject [(''text'', JString ''late fee'')])))]]) [] =
     Inr [\<lparr> id' = JString ''row-0'', priority = ''medium'', summary = JString [],
             risk_score = JNull,
             issues = replicate 10 \<lparr> text' = JString ''late fee'', rationale = JString [],
                                     risk_category = JNull \<rparr>,
             raw = JObject [(''issues'',
                     JArray (replicate 15 (JObject [(''text'', JString ''late fee'')])))] \<rparr>] \<and>
   (0::nat) < length [JObject [(''issues'',
        JArray (replicate 15 (JObject [(''text'', JString ''late fee'')])))]] \<and>
   optProp ([JObject [(''issues'',
        JArray (replicate 15 (JObject [(''text'', JString ''late fee'')])))]] ! 0) ''issues'' =
     JArray (replicate 15 (JObject [(''text'', JString ''late fee'')])) \<and>
   length (replicate 15 (JObject [(''text'', JString ''late fee'')])) = 15 \<and>
   length (issues ([\<lparr> id' = JString ''row-0'', priority = ''medium'', summary = JString [],
             risk_score = JNull,
             issues = replicate 10 \<lparr> text' = JString ''late fee'', rationale = JString [],
                                     risk_category = JNull \<rparr>,
             raw = JObject [(''issues'',
                     JArray (replicate 15 (JObject [(''text'', JString ''late fee'')])))] \<rparr>] ! 0))
     = 10"
proof -
  have h: "normalizeResults numstr_example
     (JArray [JObject [(''issues'',
        JArray (replicate 15 (JObject [(''text'', JString ''late fee'')])))]]) [] =
     Inr [\<lparr> id' = JString ''row-0'', priority = ''medium'', summary = JString [],
             risk_score = JNull,
             issues = replicate 10 \<lparr> text' = JString ''late fee'', rationale = JString [],
                                     risk_category = JNull \<rparr>,
             raw = JObject [(''issues'',
                     JArray (replicate 15 (JObject [(''text'', JString ''late fee'')])))] \<rparr>]"
    by code_simp
  have i: "(0::nat) < length [JObject [(''issues'',
        JArray (replicate 15 (JObject [(''text'', JString ''late fee'')])))]]"
    by simp
  have p: "optProp ([JObject [(''issues'',
        JArray (replicate 15 (JObject [(''text'', JString ''late fee'')])))]] ! 0) ''issues'' =
     JArray (replicate 15 (JObject [(''text'', JString ''late fee'')]))"
    by code_simp
  have l: "length (replicate 15 (JObject [(''text'', JString ''late fee'')])) = 15"
    by simp
  from issues_capped [OF h i] p l
  have "length (issues ([\<lparr> id' = JString ''row-0'', priority = ''medium'', summary = JString [],
             risk_score = JNull,
             issues = replicate 10 \<lparr> text' = JString ''late fee'', rationale = JString [],
                                     risk_category = JNull \<rparr>,
             raw = JObject [(''issues'',
                     JArray (replicate 15 (JObject [(''text'', JString ''late fee'')])))] \<rparr>] ! 0))
     = 10"
    by blast
  with h i p l show ?thesis by blast
qed


subsection \<open>Identifier\<close>

text \<open>
  C9.  When the element's \<^verbatim>\<open>id\<close> is falsy (absent, null, empty string, 0), the
  normalized id comes from the fallback chain: the \<^verbatim>\<open>id\<close> of the batch row at the
  same index if truthy, else its \<^verbatim>\<open>complaintId\<close> if truthy, else the placeholder
  \<^verbatim>\<open>row-\<close> followed by the index.  If the row's \<^verbatim>\<open>id\<close> and \<^verbatim>\<open>complaintId\<close>
  are each absent or a non-empty string, the normalized id is a non-empty string.
  The row is \<^verbatim>\<open>originalComplaints[idx] || {}\<close>.
\<close>

theorem id_fallback_chain:
  assumes "normalizeResults numstr (JArray items) originalComplaints = Inr rs"
    and "i < length items"
    and "base = js_or (index originalComplaints i) (JObject [])"
    and "\<not> truthy (optProp (items ! i) ''id'')"
  shows "id' (rs ! i) =
      (if truthy (optProp base ''id'') then optProp base ''id''
       else if truthy (optProp base ''complaintId'') then optProp base ''complaintId''
       else JString (''row-'' @ decimal i)) \<and>
    ((optProp base ''id'' = JUndefined \<or> nonempty_string (optProp base ''id'')) \<and>
     (optProp base ''complaintId'' = JUndefined \<or> nonempty_string (optProp base ''complaintId''))
       \<longrightarrow> nonempty_string (id' (rs ! i)))"
proof -
  from normalizeResults_Inr(2) [OF assms(1,2)]
  have elem: "normalizeItem numstr originalComplaints (items ! i) i = Inr (rs ! i)" .
  from normalizeItem_Inr [OF elem] assms(3)
  have "id' (rs ! i) = js_or (optProp (items ! i) ''id'')
                  (js_or (optProp base ''id'')
                    (js_or (optProp base ''complaintId'') (JString (''row-'' @ decimal i))))"
    by auto
  with assms(4) have chain: "id' (rs ! i) =
      (if truthy (optProp base ''id'') then optProp base ''id''
       else if truthy (optProp base ''complaintId'') then optProp base ''complaintId''
       else JString (''row-'' @ decimal i))"
    by (simp add: js_or_def)
  have ne: "nonempty_string v \<Longrightarrow> truthy v" for v by (cases v) simp_all
  have "nonempty_string (id' (rs ! i))"
    if "optProp base ''id'' = JUndefined \<or> nonempty_string (optProp base ''id'')"
      and "optProp base ''complaintId'' = JUndefined \<or> nonempty_string (optProp base ''complaintId'')"
    using that chain by (auto dest: ne)
  with chain show ?thesis by blast
qed

text \<open>
  C9 at an element with the empty string as id, against a row that has only a
  \<^verbatim>\<open>complaintId\<close>.
\<close>

theorem id_fallback_chain_witness:
  "normalizeResults numstr_example (JArray [JObject [(''id'', JString [])]])
     [JObject [(''complaintId'', JString ''c-7'')]] =
     Inr [\<lparr> id' = JString ''c-7'', priority = ''medium'', summary = JString [],
             risk_score = JNull, issues = [], raw = JObject [(''id'', JString [])] \<rparr>] \<and>
   (0::nat) < length [JObject [(''id'', JString [])]] \<and>
   JObject [(''complaintId'', JString ''c-7'')] =
     js_or (index [JObject [(''complaintId'', JString ''c-7'')]] 0) (JObject []) \<and>
   \<not> truthy (optProp ([JObject [(''id'', JString [])]] ! 0) ''id'') \<and>
   optProp (JObject [(''complaintId'', JString ''c-7'')]) ''id'' = JUndefined \<and>
   nonempty_string (optProp (JObject [(''complaintId'', JString ''c-7'')]) ''complaintId'') \<and>
   nonempty_string (id' ([\<lparr> id' = JString ''c-7'', priority = ''medium'', summary = JString [],
             risk_score = JNull, issues = [], raw = JObject [(''id'', JString [])] \<rparr>] ! 0))"
proof -
  have h: "normalizeResults numstr_example (JArray [JObject [(''id'', JString [])]])
     [JObject [(''complaintId'', JString ''c-7'')]] =
     Inr [\<lparr> id' = JString ''c-7'', priority = ''medium'', summary = JString [],
             risk_score = JNull, issues = [], raw = JObject [(''id'', JString [])] \<rparr>]"
    by code_simp
  have n: "(0::nat) < length [JObject [(''id'', JString [])]]"
    by simp
  have b: "JObject [(''complaintId'', JString ''c-7'')] =
     js_or (index [JObject [(''complaintId'', JString ''c-7'')]] 0) (JObject [])"
    by code_simp
  have f: "\<not> truthy (optProp ([JObject [(''id'', JString [])]] ! 0) ''id'')"
    by code_simp
  have i: "optProp (JObject [(''complaintId'', JString ''c-7'')]) ''id'' = JUndefined"
    by code_simp
  have c: "nonempty_string (optProp (JObject [(''complaintId'', JString ''c-7'')]) ''complaintId'')"
    by code_simp
  from id_fallback_chain [OF h n b f] i c
  have "nonempty_string (id' ([\<lparr> id' = JString ''c-7'', priority = ''medium'',
             summary = JString [], risk_score = JNull, issues = [],
             raw = JObject [(''id'', JString [])] \<rparr>] ! 0))"
    by blast
  with h n b f i c show ?thesis by blast
qed

subsection \<open>Synonyms in issue entries\<close>

text \<open>
  C10.  For an entry among the first ten of an element's issues, \<^verbatim>\<open>rationale\<close>
  wins only if truthy: a falsy \<^verbatim>\<open>rationale\<close> (the empty string, say) gives way to
  \<^verbatim>\<open>reason\<close>, and when that is falsy too the result is the empty string.
  Likewise \<^verbatim>\<open>category\<close> is used only when \<^verbatim>\<open>risk_category\<close> is falsy, and
  when both are falsy the result is \<^verbatim>\<open>null\<close>.
\<close>

theorem issue_synonym_precedence:
  assumes "normalizeResults numstr (JArray items) originalComplaints = Inr rs"
    and "i < length items"
    and "optProp (items ! i) ''issues'' = JArray xs"
    and "j < length xs" and "j < 10"
  shows "rationale (issues (rs ! i) ! j) =
      (if truthy (optProp (xs ! j) ''rationale'') then optProp (xs ! j) ''rationale''
       else if truthy (optProp (xs ! j) ''reason'') then optProp (xs ! j) ''reason''
       else JString []) \<and>
    risk_category (issues (rs ! i) ! j) =
      (if truthy (optProp (xs ! j) ''risk_category'') then optProp (xs ! j) ''risk_category''
       else if truthy (optProp (xs ! j) ''category'') then optProp (xs ! j) ''category''
       else JNull)"
proof -
  from normalizeResults_Inr(2) [OF assms(1,2)]
  have elem: "normalizeItem numstr originalComplaints (items ! i) i = Inr (rs ! i)" .
  from normalizeItem_Inr [OF elem] assms(3)
  have m: "mapE normalizeIssue (take 10 xs) = Inr (issues (rs ! i))" by auto
  from assms(4,5) have j: "j < length (take 10 xs)" by simp
  from mapE_Inr_nth [OF m j] j have "normalizeIssue (xs ! j) = Inr (issues (rs ! i) ! j)" by simp
  from normalizeIssue_Inr [OF this] have
    "rationale (issues (rs ! i) ! j) =
       js_or (optProp (xs ! j) ''rationale'') (js_or (optProp (xs ! j) ''reason'') (JString []))"
    "risk_category (issues (rs ! i) ! j) =
       js_or (optProp (xs ! j) ''risk_category'') (js_or (optProp (xs ! j) ''category'') JNull)"
    by simp_all
  then show ?thesis by (simp add: js_or_def)
qed

text \<open>
  C10 at an entry with an empty \<^verbatim>\<open>rationale\<close>, a \<^verbatim>\<open>reason\<close>, and both
  \<^verbatim>\<open>risk_category\<close> and \<^verbatim>\<open>category\<close>.
\<close>

theorem issue_synonym_precedence_witness:
  "normalizeResults numstr_example
     (JArray [JObject [(''issues'', JArray [JObject [(''rationale'', JString []),
        (''reason'', JString ''fee not disclosed''), (''risk_category'', JString ''fees''),
        (''category'', JString ''other'')]])]]) [] =
     Inr [\<lparr> id' = JString ''row-0'', priority = ''medium'', summary = JString [],
             risk_score = JNull,
             issues = [\<lparr> text' = JString [], rationale = JString ''fee not disclosed'',
                         risk_category = JString ''fees'' \<rparr>],
             raw = JObject [(''issues'', JArray [JObject [(''rationale'', JString []),
               (''reason'', JString ''fee not disclosed''), (''risk_category'', JString ''fees''),
               (''category'', JString ''other'')]])] \<rparr>] \<and>
   (0::nat) < length [JObject [(''issues'', JArray [JObject [(''rationale'', JString []),
        (''reason'', JString ''fee not disclosed''), (''risk_category'', JString ''fees''),
        (''category'', JString ''other'')]])]] \<and>
   optProp ([JObject [(''issues'', JArray [JObject [(''rationale'', JString []),
        (''reason'', JString ''fee not disclosed''), (''risk_category'', JString ''fees''),
        (''category'', JString ''other'')]])]] ! 0) ''issues'' =
     JArray [JObject [(''rationale'', JString []),
        (''reason'', JString ''fee not disclosed''), (''risk_category'', JString ''fees''),
        (''category'', JString ''other'')]] \<and>
   (0::nat) < length [JObject [(''rationale'', JString []),
        (''reason'', JString ''fee not disclosed''), (''risk_category'', JString ''fees''),
        (''category'', JString ''other'')]] \<and> (0::nat) < 10 \<and>
   rationale (issues ([\<lparr> id' = JString ''row-0'', priority = ''medium'', summary = JString [],
             risk_score = JNull,
             issues = [\<lparr> text' = JString [], rationale = JString ''fee not disclosed'',
                         risk_category = JString ''fees'' \<rparr>],
             raw = JObject [(''issues'', JArray [JObject [(''rationale'', JString []),
               (''reason'', JString ''fee not disclosed''), (''risk_category'', JString ''fees''),
               (''category'', JString ''other'')]])] \<rparr>] ! 0) ! 0) =
     JString ''fee not disclosed'' \<and>
   risk_category (issues ([\<lparr> id' = JString ''row-0'', priority = ''medium'', summary = JString [],
             risk_score = JNull,
             issues = [\<lparr> text' = JString [], rationale = JString ''fee not disclosed'',
                         risk_category = JString ''fees'' \<rparr>],
             raw = JObject [(''issues'', JArray [JObject [(''rationale'', JString []),
               (''reason'', JString ''fee not disclosed''), (''risk_category'', JString ''fees''),
               (''category'', JString ''other'')]])] \<rparr>] ! 0) ! 0) = JString ''fees''"
proof -
  have h: "normalizeResults numstr_example
     (JArray [JObject [(''issues'', JArray [JObject [(''rationale'', JString []),
        (''reason'', JString ''fee not disclosed''), (''risk_category'', JString ''fees''),
        (''category'', JString ''other'')]])]]) [] =
     Inr [\<lparr> id' = JString ''row-0'', priority = ''medium'', summary = JString [],
             risk_score = JNull,
             issues = [\<lparr> text' = JString [], rationale = JString ''fee not disclosed'',
                         risk_category = JString ''fees'' \<rparr>],
             raw = JObject [(''issues'', JArray [JObject [(''rationale'', JString []),
               (''reason'', JString ''fee not disclosed''), (''risk_category'', JString ''fees''),
               (''category'', JString ''other'')]])] \<rparr>]"
    by code_simp
  have i: "(0::nat) < length [JObject [(''issues'', JArray [JObject [(''rationale'', JString []),
        (''reason'', JString ''fee not disclosed''), (''risk_category'', JString ''fees''),
        (''category'', JString ''other'')]])]]"
    by simp
  have p: "optProp ([JObject [(''issues'', JArray [JObject [(''rationale'', JString []),
        (''reason'', JString ''fee not disclosed''), (''risk_category'', JString ''fees''),
        (''category'', JString ''other'')]])]] ! 0) ''issues'' =
     JArray [JObject [(''rationale'', JString []),
        (''reason'', JString ''fee not disclosed''), (''risk_category'', JString ''fees''),
        (''category'', JString ''other'')]]"
    by code_simp
  have l: "(0::nat) < length [JObject [(''rationale'', JString []),
        (''reason'', JString ''fee not disclosed''), (''risk_category'', JString ''fees''),
        (''category'', JString ''other'')]]" "(0::nat) < 10"
    by simp_all
  from issue_synonym_precedence [OF h i p l] h i p l show ?thesis
    by (simp add: optProp_def)
qed


section \<open>Properties of the extractor\<close>

subsection \<open>What the regular expression matches\<close>

text \<open>The text up to the last code unit that satisfies a test, unfolded at the head.\<close>

lemma upto_last_Cons:
  "upto_last P (x # s) =
     (if \<exists>y\<in>set s. P y then x # upto_last P s else if P x then [x] else [])"
  by (auto simp: upto_last_def dropWhile_append)

lemma upto_last_Nil [simp]: "upto_last P [] = []"
  by (simp add: upto_last_def)

text \<open>
  The greedy star followed by a closing character matches through the last
  occurrence of that character, and fails when there is none.
\<close>

lemma match_star_closer:
  "match_seq [AnyStar, Chr d] s =
     (if d \<in> set s then Some (upto_last (\<lambda>c. c = d) s) else None)"
  by (induction s) (auto simp: upto_last_Cons)

lemma match_bracketed:
  "match_seq [Chr c, AnyStar, Chr d] s =
     (case s of [] \<Rightarrow> None
      | x # t \<Rightarrow> if x = c \<and> d \<in> set t then Some (x # upto_last (\<lambda>c. c = d) t) else None)"
  by (cases s) (simp_all add: match_star_closer)

text \<open>The two alternatives at one position, and the leftmost match in a text.\<close>

lemma match_alts_jsonRegex:
  "match_alts jsonRegex s =
     (case s of [] \<Rightarrow> None
      | x # t \<Rightarrow>
          if x = CHR ''{'' \<and> CHR ''}'' \<in> set t
          then Some (x # upto_last (\<lambda>c. c = CHR ''}'') t)
          else if x = CHR ''['' \<and> CHR '']'' \<in> set t
          then Some (x # upto_last (\<lambda>c. c = CHR '']'') t)
          else None)"
  unfolding jsonRegex_def
  by (simp add: match_bracketed del: match_seq.simps split: list.splits)

lemma String_match_paired_span: "String_match jsonRegex s = paired_span s"
  by (induction s) (simp_all add: match_alts_jsonRegex)

subsection \<open>The span and the single attempt\<close>

text \<open>
  C7, as stated: the one parse attempt is on the span from the earliest \<^verbatim>\<open>{\<close> or
  \<^verbatim>\<open>[\<close> to the last \<^verbatim>\<open>}\<close> or \<^verbatim>\<open>]\<close>.  On the text \<^verbatim>\<open>{ [1]\<close> that span
  is the whole text, which is not JSON, so the claim gives absent; the expression
  cannot close the \<^verbatim>\<open>{\<close>, moves on and matches \<^verbatim>\<open>[1]\<close>, which parses, so the
  source returns the array.  (The same text separates the source from the reading
  that pairs each opening bracket with its own closing bracket: no \<^verbatim>\<open>}\<close> follows
  the earliest opening bracket.)  The parser stand-in agrees with \<^verbatim>\<open>JSON.parse\<close> on
  both texts.
\<close>

theorem extractJSON_claimed_span_counterexample:
  "extractJSON (parse_only ''[1]'' (JArray [JNumber (Fin 1)])) (JString ''{ [1]'') =
     JArray [JNumber (Fin 1)] \<and>
   claimed_span ''{ [1]'' = Some ''{ [1]'' \<and>
   extractJSON_claimed (parse_only ''[1]'' (JArray [JNumber (Fin 1)])) ''{ [1]'' = JNull"
  by code_simp

text \<open>
  C7, amended: for every input string the extractor makes one parse attempt, on the
  span that starts at the earliest \<^verbatim>\<open>{\<close> that has a \<^verbatim>\<open>}\<close> after it or
  \<^verbatim>\<open>[\<close> that has a \<^verbatim>\<open>]\<close> after it, and ends at the last closing bracket of
  that same kind.  It returns the parsed value, and \<^verbatim>\<open>null\<close> if there is no such
  span or the parse fails (or the input is not a string).  The fenced array of the
  specification's example is returned parsed, and \<^verbatim>\<open>no json here\<close> gives
  \<^verbatim>\<open>null\<close>.
\<close>

theorem extractJSON_single_attempt:
  \<open>extractJSON JSON_parse (JString s) =
     (case paired_span s of
        None \<Rightarrow> JNull
      | Some m \<Rightarrow> (case JSON_parse m of Some v \<Rightarrow> v | None \<Rightarrow> JNull)) \<and>
   (JSON_parse ''[{"id":"a"}]'' = Some v \<longrightarrow>
      extractJSON JSON_parse
        (JString (''Here is the result:'' @ [CHR 0x0A] @ ''```json'' @ [CHR 0x0A] @
                  ''[{"id":"a"}]'' @ [CHR 0x0A] @ ''```'')) = v) \<and>
   extractJSON JSON_parse (JString ''no json here'') = JNull \<and>
   (\<forall>x. (\<forall>s. x \<noteq> JString s) \<longrightarrow> extractJSON JSON_parse x = JNull)\<close>
proof -
  have general: "extractJSON JSON_parse (JString s) =
     (case paired_span s of
        None \<Rightarrow> JNull
      | Some m \<Rightarrow> (case JSON_parse m of Some v \<Rightarrow> v | None \<Rightarrow> JNull))" for s
    by (simp add: extractJSON_def String_match_paired_span)
  have span: \<open>paired_span (''Here is the result:'' @ [CHR 0x0A] @ ''```json'' @ [CHR 0x0A] @
                  ''[{"id":"a"}]'' @ [CHR 0x0A] @ ''```'') = Some ''[{"id":"a"}]''\<close>
    by code_simp
  have prose: "paired_span ''no json here'' = None"
    by code_simp
  have other: "extractJSON JSON_parse x = JNull" if "\<forall>s. x \<noteq> JString s" for x
    using that by (cases x) (simp_all add: extractJSON_def)
  from general [of s] general [of "''no json here''"] prose other
    general [of \<open>''Here is the result:'' @ [CHR 0x0A] @ ''```json'' @ [CHR 0x0A] @
                  ''[{"id":"a"}]'' @ [CHR 0x0A] @ ''```''\<close>] span
  show ?thesis by simp
qed

text \<open>
  The amended C7 at the specification's example, with a parser that accepts its
  payload.
\<close>

theorem extractJSON_single_attempt_witness:
  \<open>parse_only ''[{"id":"a"}]'' (JArray [JObject [(''id'', JString ''a'')]]) ''[{"id":"a"}]'' =
     Some (JArray [JObject [(''id'', JString ''a'')]]) \<and>
   extractJSON (parse_only ''[{"id":"a"}]'' (JArray [JObject [(''id'', JString ''a'')]]))
     (JString (''Here is the result:'' @ [CHR 0x0A] @ ''```json'' @ [CHR 0x0A] @
               ''[{"id":"a"}]'' @ [CHR 0x0A] @ ''```'')) =
     JArray [JObject [(''id'', JString ''a'')]]\<close>
proof -
  have p: \<open>parse_only ''[{"id":"a"}]'' (JArray [JObject [(''id'', JString ''a'')]])
      ''[{"id":"a"}]'' = Some (JArray [JObject [(''id'', JString ''a'')]])\<close>
    by (simp add: parse_only_def)
  from extractJSON_single_attempt
    [of \<open>parse_only ''[{"id":"a"}]'' (JArray [JObject [(''id'', JString ''a'')]])\<close>
        "[]" \<open>JArray [JObject [(''id'', JString ''a'')]]\<close>] p
  show ?thesis by blast
qed


section \<open>Properties of the request handler\<close>

text \<open>
  A text without an opening bracket has no span, a value that is not an array
  normalizes to the empty sequence, and an empty sequence is answered with the
  excerpt of the text.
\<close>

lemma paired_span_no_opener:
  "CHR ''{'' \<notin> set s \<Longrightarrow> CHR ''['' \<notin> set s \<Longrightarrow> paired_span s = None"
  by (induction s) auto

lemma normalizeResults_not_array:
  "(\<forall>items. v \<noteq> JArray items) \<Longrightarrow> normalizeResults numstr v cs = Inr []"
  by (cases v) (simp_all add: normalizeResults_def)

lemma respond_empty:
  assumes "rawTextOf data = JString s"
    and "normalizeResults numstr (extractJSON JSON_parse (JString s)) limited = Inr []"
  shows "respond numstr JSON_parse limited data =
     Inr \<lparr> status = 502, body = ErrorRaw ''Unable to parse AI response'' (JString (take 1000 s)) \<rparr>"
  using assms by (simp add: respond_def Let_def bindE_def)

text \<open>
  C8.  Take a request with a non-empty batch, a configured key, and a provider
  response whose raw text is the string \<open>s\<close> (the empty string when the response
  carries no text).  Whenever normalization of the extracted value yields the empty
  sequence, the request is answered, not with an exception and not with status 200,
  but with status 502, the error \<^verbatim>\<open>Unable to parse AI response\<close> and \<^verbatim>\<open>raw\<close>
  set to the first 1000 code units of \<open>s\<close>; the excerpt is non-empty when \<open>s\<close>
  is.  A prose text, one without \<^verbatim>\<open>{\<close> and \<^verbatim>\<open>[\<close>, always normalizes to the
  empty sequence.
\<close>

theorem unparseable_output_bad_gateway:
  assumes "getProp req_body ''complaints'' = Inr (JArray cs)" and "cs \<noteq> []"
    and "CLAUDE_API_KEY = Some key" and "key \<noteq> []"
    and "rawTextOf data = JString s"
  shows "(normalizeResults numstr (extractJSON JSON_parse (JString s)) (take 50 cs) = Inr [] \<longrightarrow>
      analyze_complaints numstr JSON_parse CLAUDE_API_KEY req_body (Resolved data) =
        Inr \<lparr> status = 502,
               body = ErrorRaw ''Unable to parse AI response'' (JString (take 1000 s)) \<rparr> \<and>
      length (take 1000 s) \<le> 1000 \<and> (s \<noteq> [] \<longrightarrow> take 1000 s \<noteq> [])) \<and>
    (CHR ''{'' \<notin> set s \<and> CHR ''['' \<notin> set s \<longrightarrow>
      normalizeResults numstr (extractJSON JSON_parse (JString s)) (take 50 cs) = Inr [])"
proof -
  have handler: "analyze_complaints numstr JSON_parse CLAUDE_API_KEY req_body (Resolved data) =
      (case respond numstr JSON_parse (take 50 cs) data of
         Inl e \<Rightarrow> Inr \<lparr> status = 500, body = ErrorDetail ''Analysis failed'' (MessageOf e) \<rparr>
       | Inr r \<Rightarrow> Inr r)"
    using assms(1-4) by (simp add: analyze_complaints_def bindE_def)
  have a: "analyze_complaints numstr JSON_parse CLAUDE_API_KEY req_body (Resolved data) =
        Inr \<lparr> status = 502,
               body = ErrorRaw ''Unable to parse AI response'' (JString (take 1000 s)) \<rparr>"
    if "normalizeResults numstr (extractJSON JSON_parse (JString s)) (take 50 cs) = Inr []"
    using handler respond_empty [OF assms(5) that] by simp
  have b: "normalizeResults numstr (extractJSON JSON_parse (JString s)) (take 50 cs) = Inr []"
    if "CHR ''{'' \<notin> set s \<and> CHR ''['' \<notin> set s"
  proof -
    from that have "paired_span s = None" by (simp add: paired_span_no_opener)
    then have "extractJSON JSON_parse (JString s) = JNull"
      by (simp add: extractJSON_def String_match_paired_span)
    then show ?thesis by (simp add: normalizeResults_not_array)
  qed
  have c: "length (take 1000 s) \<le> 1000" "s \<noteq> [] \<longrightarrow> take 1000 s \<noteq> []"
    by simp_all
  from a b c show ?thesis by blast
qed

text \<open>C8 at a batch of one complaint and the provider text \<^verbatim>\<open>no json here\<close>.\<close>

theorem unparseable_output_bad_gateway_witness:
  "getProp (JObject [(''complaints'', JArray [JObject [(''id'', JString ''a'')]])]) ''complaints'' =
     Inr (JArray [JObject [(''id'', JString ''a'')]]) \<and>
   [JObject [(''id'', JString ''a'')]] \<noteq> [] \<and>
   ''sk-test'' \<noteq> [] \<and>
   rawTextOf (JObject [(''content'', JArray [JObject [(''type'', JString ''text''),
       (''text'', JString ''no json here'')]])]) = JString ''no json here'' \<and>
   CHR ''{'' \<notin> set ''no json here'' \<and> CHR ''['' \<notin> set ''no json here'' \<and>
   analyze_complaints numstr_example (parse_only ''[]'' (JArray [])) (Some ''sk-test'')
     (JObject [(''complaints'', JArray [JObject [(''id'', JString ''a'')]])])
     (Resolved (JObject [(''content'', JArray [JObject [(''type'', JString ''text''),
       (''text'', JString ''no json here'')]])])) =
     Inr \<lparr> status = 502,
            body = ErrorRaw ''Unable to parse AI response'' (JString (take 1000 ''no json here'')) \<rparr> \<and>
   take 1000 ''no json here'' \<noteq> []"
proof -
  have r: "getProp (JObject [(''complaints'', JArray [JObject [(''id'', JString ''a'')]])])
      ''complaints'' = Inr (JArray [JObject [(''id'', JString ''a'')]])"
    by code_simp
  have n: "[JObject [(''id'', JString ''a'')]] \<noteq> []" "''sk-test'' \<noteq> []" "''no json here'' \<noteq> []"
    by simp_all
  have t: "rawTextOf (JObject [(''content'', JArray [JObject [(''type'', JString ''text''),
       (''text'', JString ''no json here'')]])]) = JString ''no json here''"
    by code_simp
  have o: "CHR ''{'' \<notin> set ''no json here'' \<and> CHR ''['' \<notin> set ''no json here''"
    by simp
  from unparseable_output_bad_gateway [OF r n(1) refl n(2) t,
      of numstr_example "parse_only ''[]'' (JArray [])"] o n(3)
  have "analyze_complaints numstr_example (parse_only ''[]'' (JArray [])) (Some ''sk-test'')
     (JObject [(''complaints'', JArray [JObject [(''id'', JString ''a'')]])])
     (Resolved (JObject [(''content'', JArray [JObject [(''type'', JString ''text''),
       (''text'', JString ''no json here'')]])])) =
     Inr \<lparr> status = 502,
            body = ErrorRaw ''Unable to parse AI response'' (JString (take 1000 ''no json here'')) \<rparr> \<and>
   take 1000 ''no json here'' \<noteq> []"
    by blast
  with r n t o show ?thesis by blast
qed

end
